theory Spec2Isabelle
  imports Complex_Main "HOL-Library.Word"
begin

section \<open>JavaScript values\<close>

text \<open>
  A JavaScript string is a sequence of UTF-16 code units. String literals of the source
  are ASCII (one exception is written out where it occurs) and are injected with \<open>js\<close>.
\<close>

type_synonym jschar = "16 word"
type_synonym jsstring = "jschar list"

definition js :: "string \<Rightarrow> jsstring" where
  "js s = map of_char s"

text \<open>
  The values a property of a place object can hold. Finite numbers are reals (the two
  zeros are identified), \<open>NaN\<close> is kept apart, the infinities are left out, and
  objects and arrays are opaque: only their truthiness is observed by the code below.
\<close>

datatype jsval =
    JUndefined
  | JNull
  | JBool bool
  | JNum real
  | JNaN
  | JStr jsstring
  | JObject

text \<open>ToBoolean.\<close>

fun truthy :: "jsval \<Rightarrow> bool" where
  "truthy JUndefined = False"
| "truthy JNull = False"
| "truthy (JBool b) = b"
| "truthy (JNum x) = (x \<noteq> 0)"
| "truthy JNaN = False"
| "truthy (JStr s) = (s \<noteq> [])"
| "truthy JObject = True"

text \<open>The operator \<open>a || b\<close>.\<close>

definition js_or :: "jsval \<Rightarrow> jsval \<Rightarrow> jsval" where
  "js_or a b = (if truthy a then a else b)"

section \<open>Data model\<close>

text \<open>
  A place object, as delivered by the provider: either a summary from a text search or
  a detail record. A property the object does not have reads as \<open>JUndefined\<close>.
\<close>

record place =
  place_id :: jsval
  name :: jsval
  formatted_address :: jsval
  formatted_phone_number :: jsval
  website :: jsval
  rating :: jsval
  user_ratings_total :: jsval
  photos :: jsval

section \<open>Result export: rows and file name\<close>

text \<open>One row object: its keys in insertion order, each with its cell.\<close>

type_synonym row = "(string \<times> jsval) list"

definition exportRow :: "place \<Rightarrow> row" where
  "exportRow item =
     [(''Name'', js_or (name item) (JStr (js ''N/A''))),
      (''Address'', js_or (formatted_address item) (JStr (js ''N/A''))),
      (''Phone'', js_or (formatted_phone_number item) (JStr (js ''N/A''))),
      (''Website'', js_or (website item) (JStr (js ''N/A''))),
      (''Rating'', js_or (rating item) (JStr (js ''N/A''))),
      (''Total Reviews'', js_or (user_ratings_total item) (JStr (js ''0'')))]"

text \<open>\<open>results.map(...)\<close>, the argument of \<open>json_to_sheet\<close>.\<close>

fun exportRows :: "place list \<Rightarrow> row list" where
  "exportRows [] = []"
| "exportRows (item # items) = exportRow item # exportRows items"

text \<open>The character class \<open>[a-zA-Z0-9_-]\<close>, on code units.\<close>

definition in_class :: "jschar \<Rightarrow> bool" where
  "in_class c \<longleftrightarrow>
     (0x61 \<le> c \<and> c \<le> 0x7A) \<or> (0x41 \<le> c \<and> c \<le> 0x5A) \<or> (0x30 \<le> c \<and> c \<le> 0x39)
     \<or> c = 0x5F \<or> c = 0x2D"

text \<open>\<open>query.replace(/[^a-zA-Z0-9_-]/g, "_")\<close>: a left-to-right scan of the code units.\<close>

fun sanitize :: "jsstring \<Rightarrow> jsstring" where
  "sanitize [] = []"
| "sanitize (c # cs) = (if in_class c then [c] else js ''_'') @ sanitize cs"

text \<open>
  The name handed to \<open>saveAs\<close>. The argument \<open>isoNow\<close> is what the platform returns for
  \<open>new Date().toISOString()\<close>; \<open>slice(0, 10)\<close> keeps its first ten code units.
\<close>

definition exportFilename :: "jsstring \<Rightarrow> jsstring \<Rightarrow> jsstring" where
  "exportFilename q isoNow =
     js ''leads_'' @ sanitize q @ js ''_'' @ take 10 isoNow @ js ''.xlsx''"

section \<open>Application state and its environment\<close>

datatype tab = SearchTab | ResultsTab

text \<open>The provider's pagination object: its flag and an identity for its \<open>nextPage()\<close>.\<close>

record pagination =
  hasNextPage :: bool
  pageToken :: nat

text \<open>The persisted session, \<open>{key, expiry}\<close>; the JSON round trip is left out.\<close>

record session =
  key :: jsstring
  expiry :: int

text \<open>
  Calls into the provider whose callback has not run yet. A detail lookup keeps the
  summary its callback closes over.
\<close>

datatype request =
    TextSearch jsstring
  | NextPageCall pagination
  | GetDetails place

text \<open>
  \<open>window.google\<close> as the search handler meets it. The handler makes three calls
  into it, in this order: \<open>new window.google.maps.Map(...)\<close>,
  \<open>new window.google.maps.places.PlacesService(map)\<close> and \<open>textSearch(request, callback)\<close>.
  Each either returns or throws: a field is \<open>None\<close> when the call returns, and the
  \<open>message\<close> of the error it throws otherwise (a \<open>TypeError\<close> when \<open>maps\<close> or \<open>places\<close> is
  not there, or whatever the SDK throws); an error without a message has the empty
  one. A \<open>textSearch\<close> that throws has not taken the request.
\<close>

record sdk =
  mapThrows :: "jsstring option"
  placesServiceThrows :: "jsstring option"
  textSearchThrows :: "jsstring option"

text \<open>The SDK with its places library, working.\<close>

definition sdkLoaded :: sdk where
  "sdkLoaded = \<lparr>mapThrows = None, placesServiceThrows = None, textSearchThrows = None\<rparr>"

text \<open>A timer set by \<open>setTimeout\<close>: its handle, the instant it is due, and whose
  \<open>nextPage()\<close> its body calls.\<close>

record timer =
  timerId :: nat
  due :: int
  target :: pagination

text \<open>
  The component's state (the \<open>useState\<close> cells), followed by what it reaches outside:
  \<open>window.google\<close> (\<open>None\<close> when it is missing), the \<open>onduleSession\<close> item of local storage, the
  clock in milliseconds, the provider's outstanding requests, the pending timers, the
  alerts shown, and a log of each \<open>pagination.nextPage()\<close> call made from a timer, with
  the instant of the call and the timer's handle.
\<close>

record world =
  activeTab :: tab
  query :: jsstring
  results :: "place list"
  loading :: bool
  error :: jsstring
  nextPage :: "pagination option"
  isAuthenticated :: bool
  enteredKey :: jsstring
  google :: "sdk option"
  onduleSession :: "session option"
  now :: int
  pending :: "request list"
  timers :: "timer list"
  nextTimerId :: nat
  alerts :: "jsstring list"
  pageCalls :: "(int \<times> nat) list"

definition SECRET_KEY :: jsstring where
  "SECRET_KEY = js ''ONDULEX2025''"

definition SESSION_DURATION :: int where
  "SESSION_DURATION = 24 * 60 * 60 * 1000"

text \<open>\<open>PlacesServiceStatus.OK\<close>, a constant of the provider's SDK.\<close>

definition PlacesServiceStatus_OK :: jsstring where
  "PlacesServiceStatus_OK = js ''OK''"

text \<open>The state at the first render, before the mount effect has run.\<close>

definition initialWorld :: "sdk option \<Rightarrow> session option \<Rightarrow> int \<Rightarrow> world" where
  "initialWorld g stored t =
     \<lparr>activeTab = SearchTab, query = [], results = [], loading = False, error = [],
      nextPage = None, isAuthenticated = False, enteredKey = [],
      google = g, onduleSession = stored, now = t, pending = [], timers = [],
      nextTimerId = 0, alerts = [], pageCalls = []\<rparr>"

section \<open>Access gate\<close>

text \<open>The mount effect (\<open>useEffect\<close> with no dependencies).\<close>

definition checkSession :: "world \<Rightarrow> world" where
  "checkSession s =
     (case onduleSession s of
        None \<Rightarrow> s
      | Some sessionData \<Rightarrow>
          if now s < expiry sessionData then s\<lparr>isAuthenticated := True\<rparr>
          else s\<lparr>onduleSession := None\<rparr>)"

text \<open>
  \<open>restoreSession\<close>: the application starts; the result is whether the user is taken
  as authenticated, with the state after the effect.
\<close>

definition restoreSession ::
  "sdk option \<Rightarrow> session option \<Rightarrow> int \<Rightarrow> bool \<times> world" where
  "restoreSession g stored t =
     (let s = checkSession (initialWorld g stored t) in (isAuthenticated s, s))"

definition handleLogin :: "world \<Rightarrow> world" where
  "handleLogin s =
     (if enteredKey s = SECRET_KEY then
        s\<lparr>onduleSession := Some \<lparr>key = SECRET_KEY, expiry = now s + SESSION_DURATION\<rparr>,
          isAuthenticated := True\<rparr>
      else s\<lparr>alerts := alerts s @ [0x274C # js '' Invalid key. Please try again.'']\<rparr>)"

section \<open>Search controller\<close>

text \<open>\<open>res.forEach\<close>: one detail lookup per summary, issued in page order.\<close>

fun issueDetails :: "place list \<Rightarrow> request list \<Rightarrow> request list" where
  "issueDetails [] reqs = reqs"
| "issueDetails (p # ps) reqs = issueDetails ps (reqs @ [GetDetails p])"

text \<open>The callback of one detail lookup; \<open>p\<close> is the summary it closes over.\<close>

definition detailsCallback :: "place \<Rightarrow> place \<Rightarrow> jsstring \<Rightarrow> world \<Rightarrow> world" where
  "detailsCallback p details detailsStatus s =
     (if detailsStatus = PlacesServiceStatus_OK then s\<lparr>results := results s @ [details]\<rparr>
      else s\<lparr>results := results s @ [p]\<rparr>)"

text \<open>\<open>pagination && pagination.hasNextPage\<close>; a missing pagination object is \<open>None\<close>.\<close>

definition storeNextPage :: "pagination option \<Rightarrow> pagination option" where
  "storeNextPage pg =
     (case pg of
        None \<Rightarrow> None
      | Some p \<Rightarrow> if hasNextPage p then Some p else None)"

definition placesCallback :: "place list \<Rightarrow> jsstring \<Rightarrow> pagination option \<Rightarrow> world \<Rightarrow> world" where
  "placesCallback res status pg s =
     (if status = PlacesServiceStatus_OK then
        s\<lparr>pending := issueDetails res (pending s),
          activeTab := ResultsTab,
          nextPage := storeNextPage pg,
          loading := False\<rparr>
      else
        s\<lparr>error := js ''Google Places request failed: '' @ status,
          loading := False\<rparr>)"

text \<open>WhiteSpace and LineTerminator code units, which \<open>trim\<close> strips.\<close>

definition is_space :: "jschar \<Rightarrow> bool" where
  "is_space c \<longleftrightarrow>
     c \<in> {0x09, 0x0A, 0x0B, 0x0C, 0x0D, 0x20, 0xA0, 0x1680, 0x2028, 0x2029, 0x202F,
          0x205F, 0x3000, 0xFEFF} \<or> (0x2000 \<le> c \<and> c \<le> 0x200A)"

definition trim :: "jsstring \<Rightarrow> jsstring" where
  "trim q = rev (dropWhile is_space (rev (dropWhile is_space q)))"

text \<open>
  The \<open>try\<close> block of \<open>handleSearch\<close>, up to the point where the request is handed
  over: the message of the error that reaches the \<open>catch\<close>, or \<open>None\<close> when nothing is
  thrown. The explicit \<open>throw\<close> comes first, then the three calls in their order.
\<close>

definition thrown :: "sdk option \<Rightarrow> jsstring option" where
  "thrown g =
     (case g of
        None \<Rightarrow> Some (js ''Google Maps SDK not loaded. Check index.html script.'')
      | Some k \<Rightarrow>
          (case mapThrows k of
             Some m \<Rightarrow> Some m
           | None \<Rightarrow>
               (case placesServiceThrows k of
                  Some m \<Rightarrow> Some m
                | None \<Rightarrow> textSearchThrows k)))"

text \<open>
  \<open>handleSearch\<close>. The early return on a blank query, the four resets, and the
  \<open>try\<close> block with its \<open>catch\<close>, which shows \<open>err.message || "An error occurred"\<close> and
  ends the loading.
\<close>

definition handleSearch :: "world \<Rightarrow> world" where
  "handleSearch s =
     (if trim (query s) = [] then s
      else
        let s1 = s\<lparr>loading := True, error := [], results := [], nextPage := None\<rparr> in
        case thrown (google s1) of
          Some message \<Rightarrow>
            s1\<lparr>error := (if message \<noteq> [] then message else js ''An error occurred''),
               loading := False\<rparr>
        | None \<Rightarrow> s1\<lparr>pending := pending s1 @ [TextSearch (query s1)]\<rparr>)"

text \<open>
  The stored continuation is the closure \<open>() => setTimeout(() => pagination.nextPage(), 2000)\<close>;
  the state keeps the pagination object it closes over, and \<open>callNextPage\<close> is its body.
\<close>

definition callNextPage :: "pagination \<Rightarrow> world \<Rightarrow> world" where
  "callNextPage p s =
     s\<lparr>timers := timers s @ [\<lparr>timerId = nextTimerId s, due = now s + 2000, target = p\<rparr>],
       nextTimerId := Suc (nextTimerId s)\<rparr>"

definition loadMore :: "world \<Rightarrow> world" where
  "loadMore s =
     (case nextPage s of
        None \<Rightarrow> s
      | Some p \<Rightarrow> callNextPage p (s\<lparr>loading := True\<rparr>))"

text \<open>
  \<open>downloadExcel\<close> reads the result list and the query of the current state; the
  outcome is what it hands to the serializer and the name it hands to \<open>saveAs\<close>. It
  changes no state.
\<close>

definition downloadExcel :: "world \<Rightarrow> jsstring \<Rightarrow> row list \<times> jsstring" where
  "downloadExcel s isoNow = (exportRows (results s), exportFilename (query s) isoNow)"

section \<open>Events\<close>

text \<open>
  Everything runs on one thread, one handler or callback at a time. An event is a user
  action the rendered page allows, the passing of time, a timer becoming due, or the
  provider delivering the callback of one outstanding request.
\<close>

datatype event =
    TypeKey jsstring
  | SubmitLogin
  | TypeQuery jsstring
  | SubmitSearch
  | Back
  | ClickLoadMore
  | Tick nat
  | TimerFires nat
  | PageResponse nat "place list" jsstring "pagination option"
  | DetailsResponse nat place jsstring

definition removeAt :: "nat \<Rightarrow> 'a list \<Rightarrow> 'a list" where
  "removeAt i xs = take i xs @ drop (Suc i) xs"

text \<open>The body of the timer: \<open>pagination.nextPage()\<close>, a new call into the provider.\<close>

definition fireTimer :: "nat \<Rightarrow> world \<Rightarrow> world" where
  "fireTimer i s =
     (let tm = timers s ! i in
      s\<lparr>timers := removeAt i (timers s),
        pending := pending s @ [NextPageCall (target tm)],
        pageCalls := pageCalls s @ [(now s, timerId tm)]\<rparr>)"

text \<open>
  One event; \<open>None\<close> when the page does not offer the action (the login form is shown
  until authenticated, inputs are \<open>required\<close>, the search form is disabled while
  loading, the buttons of the results view need a result), when a timer is not yet due,
  or when there is no such request to answer. A page callback answers a text search or
  a \<open>nextPage()\<close> call; a detail callback answers a detail lookup.
\<close>

fun step :: "world \<Rightarrow> event \<Rightarrow> world option" where
  "step s (TypeKey k) =
     (if \<not> isAuthenticated s then Some (s\<lparr>enteredKey := k\<rparr>) else None)"
| "step s SubmitLogin =
     (if \<not> isAuthenticated s \<and> enteredKey s \<noteq> [] then Some (handleLogin s) else None)"
| "step s (TypeQuery q) =
     (if isAuthenticated s \<and> activeTab s = SearchTab \<and> \<not> loading s
      then Some (s\<lparr>query := q\<rparr>) else None)"
| "step s SubmitSearch =
     (if isAuthenticated s \<and> activeTab s = SearchTab \<and> \<not> loading s \<and> query s \<noteq> []
      then Some (handleSearch s) else None)"
| "step s Back =
     (if isAuthenticated s \<and> activeTab s = ResultsTab
      then Some (s\<lparr>activeTab := SearchTab\<rparr>) else None)"
| "step s ClickLoadMore =
     (if isAuthenticated s \<and> activeTab s = ResultsTab \<and> results s \<noteq> []
         \<and> nextPage s \<noteq> None \<and> \<not> loading s
      then Some (loadMore s) else None)"
| "step s (Tick d) = Some (s\<lparr>now := now s + int d\<rparr>)"
| "step s (TimerFires i) =
     (if i < length (timers s) \<and> due (timers s ! i) \<le> now s
      then Some (fireTimer i s) else None)"
| "step s (PageResponse i res status pg) =
     (if i < length (pending s) then
        (case pending s ! i of
           GetDetails p \<Rightarrow> None
         | _ \<Rightarrow> Some (placesCallback res status pg (s\<lparr>pending := removeAt i (pending s)\<rparr>)))
      else None)"
| "step s (DetailsResponse i details detailsStatus) =
     (if i < length (pending s) then
        (case pending s ! i of
           GetDetails p \<Rightarrow>
             Some (detailsCallback p details detailsStatus
                     (s\<lparr>pending := removeAt i (pending s)\<rparr>))
         | _ \<Rightarrow> None)
      else None)"

fun run :: "world \<Rightarrow> event list \<Rightarrow> world option" where
  "run s [] = Some s"
| "run s (e # es) = (case step s e of None \<Rightarrow> None | Some s' \<Rightarrow> run s' es)"

text \<open>The application once mounted.\<close>

definition startApp :: "sdk option \<Rightarrow> session option \<Rightarrow> int \<Rightarrow> world" where
  "startApp g stored t = snd (restoreSession g stored t)"

section \<open>Predicates used in the statements\<close>

text \<open>
  The shape \<open>YYYY-MM-DD\<close>: what the first ten code units of \<open>toISOString()\<close> are
  for a date whose year has four digits.
\<close>

definition is_digit :: "jschar \<Rightarrow> bool" where
  "is_digit c \<longleftrightarrow> 0x30 \<le> c \<and> c \<le> 0x39"

definition is_ymd :: "jsstring \<Rightarrow> bool" where
  "is_ymd d \<longleftrightarrow>
     length d = 10 \<and> list_all is_digit (take 4 d) \<and> d ! 4 = 0x2D
     \<and> list_all is_digit (take 2 (drop 5 d)) \<and> d ! 7 = 0x2D
     \<and> list_all is_digit (drop 8 d)"

text \<open>The events that deliver the callback of a detail lookup.\<close>

fun isDetailsResponse :: "event \<Rightarrow> bool" where
  "isDetailsResponse (DetailsResponse i details detailsStatus) = True"
| "isDetailsResponse e = False"

text \<open>Timer handles are handed out in increasing order: none in use is yet to come.\<close>

definition handlesFresh :: "world \<Rightarrow> bool" where
  "handlesFresh s \<longleftrightarrow>
     (\<forall>tm\<in>set (timers s). timerId tm < nextTimerId s)
     \<and> (\<forall>c\<in>set (pageCalls s). snd c < nextTimerId s)"

text \<open>
  The timer with handle \<open>h\<close> is not due before \<open>d\<close>, and no call made from it
  happened before \<open>d\<close>.
\<close>

definition notBefore :: "nat \<Rightarrow> int \<Rightarrow> world \<Rightarrow> bool" where
  "notBefore h d s \<longleftrightarrow>
     (\<forall>tm\<in>set (timers s). timerId tm = h \<longrightarrow> d \<le> due tm)
     \<and> (\<forall>c\<in>set (pageCalls s). snd c = h \<longrightarrow> d \<le> fst c)"

section \<open>Example data\<close>

definition cafeSummary :: place where
  "cafeSummary =
     \<lparr>place_id = JStr (js ''p1''), name = JStr (js ''Cafe''),
      formatted_address = JStr (js ''1 Main St''), formatted_phone_number = JUndefined,
      website = JUndefined, rating = JNum 4.5, user_ratings_total = JNum 12,
      photos = JObject\<rparr>"

definition cafeDetails :: place where
  "cafeDetails =
     \<lparr>place_id = JUndefined, name = JStr (js ''Cafe''),
      formatted_address = JStr (js ''1 Main St''),
      formatted_phone_number = JStr (js ''021''), website = JStr (js ''http://c.pk''),
      rating = JNum 4.5, user_ratings_total = JNum 12, photos = JObject\<rparr>"

definition dhabaSummary :: place where
  "dhabaSummary =
     \<lparr>place_id = JStr (js ''p2''), name = JStr (js ''Dhaba''),
      formatted_address = JUndefined, formatted_phone_number = JUndefined,
      website = JUndefined, rating = JUndefined, user_ratings_total = JUndefined,
      photos = JUndefined\<rparr>"

definition morePages :: pagination where
  "morePages = \<lparr>hasNextPage = True, pageToken = 1\<rparr>"

text \<open>The state after a login with the right key at instant \<open>0\<close>.\<close>

definition loggedIn :: world where
  "loggedIn =
     (startApp (Some sdkLoaded) None 0)
       \<lparr>isAuthenticated := True, enteredKey := SECRET_KEY,
         onduleSession := Some \<lparr>key = SECRET_KEY, expiry = SESSION_DURATION\<rparr>\<rparr>"

section \<open>Properties of the export\<close>

lemma exportRows_map: "exportRows rs = map exportRow rs"
  by (induction rs) simp_all

lemma js_or_cases: "js_or v d = (if truthy v then v else d)"
  by (simp add: js_or_def)

lemma js_or_populated:
  "d \<noteq> JUndefined \<Longrightarrow> d \<noteq> JNull \<Longrightarrow> d \<noteq> JStr [] \<Longrightarrow>
   js_or v d \<noteq> JUndefined \<and> js_or v d \<noteq> JNull \<and> js_or v d \<noteq> JStr []"
  by (cases v) (simp_all add: js_or_def)

lemma exportRow_keys:
  "map fst (exportRow item) =
     [''Name'', ''Address'', ''Phone'', ''Website'', ''Rating'', ''Total Reviews'']"
  by (simp add: exportRow_def)

lemma exportRow_cells:
  "map snd (exportRow item) =
     [if truthy (name item) then name item else JStr (js ''N/A''),
      if truthy (formatted_address item) then formatted_address item else JStr (js ''N/A''),
      if truthy (formatted_phone_number item) then formatted_phone_number item
      else JStr (js ''N/A''),
      if truthy (website item) then website item else JStr (js ''N/A''),
      if truthy (rating item) then rating item else JStr (js ''N/A''),
      if truthy (user_ratings_total item) then user_ratings_total item else JStr (js ''0'')]"
  by (simp add: exportRow_def js_or_cases)

lemma exportRow_populated:
  assumes "cell \<in> set (map snd (exportRow item))"
  shows "cell \<noteq> JUndefined \<and> cell \<noteq> JNull \<and> cell \<noteq> JStr []"
proof -
  have na: "JStr (js ''N/A'') \<noteq> JUndefined" "JStr (js ''N/A'') \<noteq> JNull"
    "JStr (js ''N/A'') \<noteq> JStr []"
    by (simp_all add: js_def)
  have z: "JStr (js ''0'') \<noteq> JUndefined" "JStr (js ''0'') \<noteq> JNull"
    "JStr (js ''0'') \<noteq> JStr []"
    by (simp_all add: js_def)
  from assms consider "cell = js_or (name item) (JStr (js ''N/A''))"
    | "cell = js_or (formatted_address item) (JStr (js ''N/A''))"
    | "cell = js_or (formatted_phone_number item) (JStr (js ''N/A''))"
    | "cell = js_or (website item) (JStr (js ''N/A''))"
    | "cell = js_or (rating item) (JStr (js ''N/A''))"
    | "cell = js_or (user_ratings_total item) (JStr (js ''0''))"
    unfolding exportRow_def by auto
  then show ?thesis
    by cases (simp_all add: js_or_populated [OF na] js_or_populated [OF z])
qed

text \<open>
  C1, as the code has it. The rows handed to the serializer are one per result of the
  current result list, in order; each has the six keys Name, Address, Phone, Website, Rating, Total Reviews in
  that order; each cell is the source value when that value is truthy and the default
  otherwise (\<open>"N/A"\<close>, and \<open>"0"\<close> for the review count), so a missing property gets
  the default; and no cell is undefined, null or the empty string.
\<close>

theorem downloadExcel_rows:
  "length (fst (downloadExcel s isoNow)) = length (results s) \<and>
   (\<forall>i<length (results s).
      map fst (fst (downloadExcel s isoNow) ! i) =
        [''Name'', ''Address'', ''Phone'', ''Website'', ''Rating'', ''Total Reviews'']
      \<and> map snd (fst (downloadExcel s isoNow) ! i) =
        [if truthy (name (results s ! i)) then name (results s ! i) else JStr (js ''N/A''),
         if truthy (formatted_address (results s ! i)) then formatted_address (results s ! i)
         else JStr (js ''N/A''),
         if truthy (formatted_phone_number (results s ! i))
         then formatted_phone_number (results s ! i) else JStr (js ''N/A''),
         if truthy (website (results s ! i)) then website (results s ! i)
         else JStr (js ''N/A''),
         if truthy (rating (results s ! i)) then rating (results s ! i)
         else JStr (js ''N/A''),
         if truthy (user_ratings_total (results s ! i)) then user_ratings_total (results s ! i)
         else JStr (js ''0'')]
      \<and> (\<forall>cell \<in> set (map snd (fst (downloadExcel s isoNow) ! i)).
            cell \<noteq> JUndefined \<and> cell \<noteq> JNull \<and> cell \<noteq> JStr []))"
proof -
  have rows: "fst (downloadExcel s isoNow) = map exportRow (results s)"
    by (simp add: downloadExcel_def exportRows_map)
  show ?thesis
    unfolding rows
    using exportRow_populated
    by (simp add: exportRow_keys exportRow_cells del: set_map list.map)
qed

text \<open>
  The theorem at a list of two results: a full detail record, and a summary that has
  only an identifier and a name.
\<close>

theorem downloadExcel_rows_witness:
  "map snd (fst (downloadExcel
        (loggedIn\<lparr>query := js ''cafe'', results := [cafeDetails, dhabaSummary]\<rparr>)
        (js ''2025-01-01T00:00:00.000Z'')) ! 0) =
     [JStr (js ''Cafe''), JStr (js ''1 Main St''), JStr (js ''021''),
      JStr (js ''http://c.pk''), JNum 4.5, JNum 12]
   \<and> map snd (fst (downloadExcel
        (loggedIn\<lparr>query := js ''cafe'', results := [cafeDetails, dhabaSummary]\<rparr>)
        (js ''2025-01-01T00:00:00.000Z'')) ! 1) =
     [JStr (js ''Dhaba''), JStr (js ''N/A''), JStr (js ''N/A''), JStr (js ''N/A''),
      JStr (js ''N/A''), JStr (js ''0'')]"
  using downloadExcel_rows [of
      "loggedIn\<lparr>query := js ''cafe'', results := [cafeDetails, dhabaSummary]\<rparr>"
      "js ''2025-01-01T00:00:00.000Z''"]
  by (simp add: js_def cafeDetails_def dhabaSummary_def)

text \<open>
  C1 as stated fails where a property is present but falsy: a rating of \<open>0\<close> is
  exported as \<open>"N/A"\<close>, a review count of \<open>0\<close> as the string \<open>"0"\<close>, and an empty
  name as \<open>"N/A"\<close>, not as the source value.
\<close>

theorem downloadExcel_falsy_counterexample:
  "fst (downloadExcel
      ((initialWorld (Some sdkLoaded) None 0)
         \<lparr>isAuthenticated := True, activeTab := ResultsTab, query := js ''cafe'',
           results :=
             [\<lparr>place_id = JStr (js ''p3''), name = JStr [],
               formatted_address = JStr (js ''2 Side St''),
               formatted_phone_number = JUndefined, website = JUndefined,
               rating = JNum 0, user_ratings_total = JNum 0, photos = JUndefined\<rparr>]\<rparr>)
      (js ''2025-01-01T00:00:00.000Z'')) =
     [[(''Name'', JStr (js ''N/A'')), (''Address'', JStr (js ''2 Side St'')),
       (''Phone'', JStr (js ''N/A'')), (''Website'', JStr (js ''N/A'')),
       (''Rating'', JStr (js ''N/A'')), (''Total Reviews'', JStr (js ''0''))]]
   \<and> JStr (js ''N/A'') \<noteq> JNum 0 \<and> JStr (js ''0'') \<noteq> JNum 0 \<and> JStr (js ''N/A'') \<noteq> JStr []"
  by (simp add: downloadExcel_def exportRow_def js_or_def js_def initialWorld_def)

section \<open>Properties of the file name\<close>

lemma sanitize_length: "length (sanitize q) = length q"
  by (induction q) (simp_all add: js_def)

lemma sanitize_nth:
  "i < length q \<Longrightarrow> sanitize q ! i = (if in_class (q ! i) then q ! i else 0x5F)"
proof (induction q arbitrary: i)
  case Nil
  then show ?case by simp
next
  case (Cons c cs)
  then show ?case by (cases i) (simp_all add: js_def)
qed

lemma in_class_underscore: "in_class 0x5F"
  by (simp add: in_class_def)

lemma sanitize_in_class: "c \<in> set (sanitize q) \<Longrightarrow> in_class c"
  by (induction q) (auto simp: js_def in_class_underscore split: if_splits)

lemma is_digit_in_class: "is_digit c \<Longrightarrow> in_class c"
  by (simp add: is_digit_def in_class_def)

lemma is_ymd_in_class:
  assumes "is_ymd d" "c \<in> set d"
  shows "in_class c"
proof -
  from assms(2) obtain i where i: "i < length d" "c = d ! i"
    by (auto simp: in_set_conv_nth)
  from assms(1) have len: "length d = 10" by (simp add: is_ymd_def)
  from assms(1) have year: "\<forall>j<4. is_digit (d ! j)"
    by (auto simp: is_ymd_def list_all_length)
  from assms(1) have month: "\<forall>j<2. is_digit (d ! (5 + j))"
    by (auto simp: is_ymd_def list_all_length)
  from assms(1) have day: "\<forall>j<2. is_digit (d ! (8 + j))"
    by (auto simp: is_ymd_def list_all_length)
  from assms(1) have hyphens: "d ! 4 = 0x2D" "d ! 7 = 0x2D"
    by (simp_all add: is_ymd_def)
  have hy: "in_class 0x2D" by (simp add: in_class_def)
  from i len consider "i < 4" | "i = 4" | "i = 5" | "i = 6" | "i = 7" | "i = 8" | "i = 9"
    by linarith
  then show ?thesis
  proof cases
    case 1 with year i show ?thesis by (simp add: is_digit_in_class)
  next
    case 2 with hyphens hy i show ?thesis by simp
  next
    case 3 with month [rule_format, of 0] i show ?thesis by (simp add: is_digit_in_class)
  next
    case 4 with month [rule_format, of 1] i show ?thesis by (simp add: is_digit_in_class)
  next
    case 5 with hyphens hy i show ?thesis by simp
  next
    case 6 with day [rule_format, of 0] i show ?thesis by (simp add: is_digit_in_class)
  next
    case 7 with day [rule_format, of 1] i show ?thesis by (simp add: is_digit_in_class)
  qed
qed

text \<open>
  C6. The sanitized query has the query's length, and at each position the query's
  code unit when it is in \<open>[A-Za-z0-9_-]\<close> and \<open>_\<close> otherwise, so all of it is in
  that class. The file name is \<open>leads_\<close>, the sanitized query, \<open>_\<close>, the first ten
  code units of the platform's ISO rendering of the current instant, and \<open>.xlsx\<close>. When
  that rendering starts with a date \<open>d\<close> of the shape \<open>YYYY-MM-DD\<close>, the file name is
  \<open>leads_<sanitized>_<d>.xlsx\<close> and its part between \<open>leads_\<close> and \<open>.xlsx\<close> has
  only code units in \<open>[A-Za-z0-9_-]\<close>.
\<close>

theorem downloadExcel_filename:
  "length (sanitize (query s)) = length (query s)
   \<and> (\<forall>i<length (query s).
        sanitize (query s) ! i = (if in_class (query s ! i) then query s ! i else 0x5F))
   \<and> (\<forall>c\<in>set (sanitize (query s)). in_class c)
   \<and> snd (downloadExcel s isoNow) =
       js ''leads_'' @ sanitize (query s) @ js ''_'' @ take 10 isoNow @ js ''.xlsx''
   \<and> (is_ymd d \<longrightarrow>
        snd (downloadExcel s (d @ rest)) =
          js ''leads_'' @ sanitize (query s) @ js ''_'' @ d @ js ''.xlsx''
        \<and> (\<forall>c\<in>set (sanitize (query s) @ js ''_'' @ d). in_class c))"
proof -
  have "is_ymd d \<Longrightarrow> take 10 (d @ rest) = d"
    by (simp add: is_ymd_def)
  moreover have "set (js ''_'') = {0x5F}"
    by (simp add: js_def)
  ultimately show ?thesis
    using sanitize_in_class is_ymd_in_class
    by (auto simp: sanitize_length sanitize_nth downloadExcel_def exportFilename_def
        in_class_underscore)
qed

text \<open>The theorem at the query \<open>Coffee in Karachi!\<close> on 31 January 2025.\<close>

theorem downloadExcel_filename_witness:
  "is_ymd (js ''2025-01-31'')
   \<and> sanitize (js ''Coffee in Karachi!'') = js ''Coffee_in_Karachi_''
   \<and> snd (downloadExcel
        (loggedIn\<lparr>query := js ''Coffee in Karachi!'', results := [cafeDetails]\<rparr>)
        (js ''2025-01-31T10:20:30.456Z'')) =
     js ''leads_Coffee_in_Karachi__2025-01-31.xlsx''"
  using downloadExcel_filename [of
      "loggedIn\<lparr>query := js ''Coffee in Karachi!'', results := [cafeDetails]\<rparr>"
      "js ''2025-01-31T10:20:30.456Z''" "js ''2025-01-31''" "js ''T10:20:30.456Z''"]
  by (simp add: js_def is_ymd_def is_digit_def in_class_def)

section \<open>Properties of the access gate\<close>

text \<open>
  C7. With a persisted session record, starting the application at an instant at or
  past the record's expiry leaves the user unauthenticated and removes the record;
  starting it before the expiry authenticates the user and keeps the record as it is.
\<close>

theorem restoreSession_expiry:
  "(expiry r \<le> t \<longrightarrow>
      fst (restoreSession g (Some r) t) = False
      \<and> onduleSession (snd (restoreSession g (Some r) t)) = None)
   \<and> (t < expiry r \<longrightarrow>
      fst (restoreSession g (Some r) t) = True
      \<and> onduleSession (snd (restoreSession g (Some r) t)) = Some r)"
  by (simp add: restoreSession_def checkSession_def initialWorld_def Let_def)

text \<open>The theorem at a record that expires at instant 1000, read at 1000 and at 999.\<close>

theorem restoreSession_expiry_witness:
  "fst (restoreSession (Some sdkLoaded) (Some \<lparr>key = SECRET_KEY, expiry = 1000\<rparr>) 1000) = False
   \<and> onduleSession (snd (restoreSession (Some sdkLoaded) (Some \<lparr>key = SECRET_KEY, expiry = 1000\<rparr>) 1000))
       = None
   \<and> fst (restoreSession (Some sdkLoaded) (Some \<lparr>key = SECRET_KEY, expiry = 1000\<rparr>) 999) = True
   \<and> onduleSession (snd (restoreSession (Some sdkLoaded) (Some \<lparr>key = SECRET_KEY, expiry = 1000\<rparr>) 999))
       = Some \<lparr>key = SECRET_KEY, expiry = 1000\<rparr>"
  using restoreSession_expiry [of "\<lparr>key = SECRET_KEY, expiry = 1000\<rparr>" 1000 "Some sdkLoaded"]
    restoreSession_expiry [of "\<lparr>key = SECRET_KEY, expiry = 1000\<rparr>" 999 "Some sdkLoaded"]
  by simp

section \<open>Properties of the search controller\<close>

lemmas run_defs = startApp_def restoreSession_def checkSession_def initialWorld_def
  handleLogin_def handleSearch_def placesCallback_def detailsCallback_def storeNextPage_def
  loadMore_def callNextPage_def fireTimer_def removeAt_def trim_def is_space_def
  SECRET_KEY_def PlacesServiceStatus_OK_def SESSION_DURATION_def js_def Let_def loggedIn_def
  thrown_def sdkLoaded_def

lemma loggedIn_reached:
  "run (startApp (Some sdkLoaded) None 0) [TypeKey SECRET_KEY, SubmitLogin] = Some loggedIn"
  by (simp add: run_defs)

lemma placesCallback_failure:
  "status \<noteq> PlacesServiceStatus_OK \<Longrightarrow>
   placesCallback res status pg s =
     s\<lparr>error := js ''Google Places request failed: '' @ status, loading := False\<rparr>"
  by (simp add: placesCallback_def)

lemma removeAt_append_last: "removeAt (length xs) (xs @ [x]) = xs"
  by (simp add: removeAt_def)

lemma in_set_removeAt: "x \<in> set (removeAt i xs) \<Longrightarrow> x \<in> set xs"
  by (auto simp: removeAt_def dest: in_set_takeD in_set_dropD)

lemma nth_in_removeAt:
  assumes "j < length xs" "j \<noteq> i"
  shows "xs ! j \<in> set (removeAt i xs)"
proof (cases "j < i")
  case True
  with assms(1) have "xs ! j \<in> set (take i xs)"
    by (auto simp: in_set_conv_nth intro!: exI [of _ j])
  then show ?thesis by (simp add: removeAt_def)
next
  case False
  with assms have "Suc i \<le> j" by simp
  then obtain k where k: "j = Suc i + k" by (auto simp: le_iff_add)
  with assms(1) have "xs ! j \<in> set (drop (Suc i) xs)"
    by (auto simp: in_set_conv_nth intro!: exI [of _ k])
  then show ?thesis by (simp add: removeAt_def)
qed

lemma trim_empty_iff: "trim q = [] \<longleftrightarrow> (\<forall>c\<in>set q. is_space c)"
proof
  assume "trim q = []"
  then have all: "\<forall>c\<in>set (dropWhile is_space q). is_space c"
    by (simp add: trim_def)
  have "dropWhile is_space q = []"
  proof (rule ccontr)
    assume ne: "dropWhile is_space q \<noteq> []"
    then have "\<not> is_space (hd (dropWhile is_space q))" by (rule hd_dropWhile)
    moreover from ne have "hd (dropWhile is_space q) \<in> set (dropWhile is_space q)" by simp
    ultimately show False using all by blast
  qed
  then show "\<forall>c\<in>set q. is_space c" by simp
next
  assume "\<forall>c\<in>set q. is_space c"
  then have e: "dropWhile is_space q = []" by simp
  show "trim q = []" unfolding trim_def e by simp
qed

lemma issueDetails_append: "issueDetails ps reqs = reqs @ map GetDetails ps"
  by (induction ps arbitrary: reqs) simp_all

lemma handleSearch_issues:
  assumes "trim (query s) \<noteq> []" and "thrown (google s) = None"
  shows "handleSearch s =
      s\<lparr>loading := True, error := [], results := [], nextPage := None,
        pending := pending s @ [TextSearch (query s)]\<rparr>"
  using assms by (simp add: handleSearch_def Let_def)

lemma handleSearch_caught:
  assumes "trim (query s) \<noteq> []" and "thrown (google s) = Some m"
  shows "handleSearch s =
      s\<lparr>loading := False, error := (if m = [] then js ''An error occurred'' else m),
        results := [], nextPage := None\<rparr>"
  using assms by (simp add: handleSearch_def Let_def)

text \<open>
  C3, as the code has it. When the query has a code unit that is not white space,
  \<open>handleSearch\<close> empties the result list, the error message and the continuation;
  then, when \<open>window.google\<close> is there and none of the three calls into it throws, it
  sets the loading flag and adds exactly one text search for that query to the
  provider's outstanding requests. When \<open>window.google\<close> is missing, or the first of
  the calls that throws does so with message \<open>m\<close>, it issues no request, leaves the
  loading flag false and sets the error message: to the SDK notice in the first case,
  to \<open>m\<close> in the second, or to \<open>An error occurred\<close> when \<open>m\<close> is empty. When the query
  is empty or all white space, nothing changes.
\<close>

theorem handleSearch_effect:
  "((\<exists>c\<in>set (query s). \<not> is_space c) \<and> google s = Some k \<and> mapThrows k = None
       \<and> placesServiceThrows k = None \<and> textSearchThrows k = None \<longrightarrow>
      handleSearch s =
        s\<lparr>loading := True, error := [], results := [], nextPage := None,
          pending := pending s @ [TextSearch (query s)]\<rparr>)
   \<and> ((\<exists>c\<in>set (query s). \<not> is_space c) \<and> google s = None \<longrightarrow>
      handleSearch s =
        s\<lparr>loading := False,
          error := js ''Google Maps SDK not loaded. Check index.html script.'',
          results := [], nextPage := None\<rparr>)
   \<and> ((\<exists>c\<in>set (query s). \<not> is_space c) \<and> google s = Some k
       \<and> (mapThrows k = Some m
           \<or> mapThrows k = None \<and> placesServiceThrows k = Some m
           \<or> mapThrows k = None \<and> placesServiceThrows k = None
              \<and> textSearchThrows k = Some m) \<longrightarrow>
      handleSearch s =
        s\<lparr>loading := False, error := (if m = [] then js ''An error occurred'' else m),
          results := [], nextPage := None\<rparr>)
   \<and> ((\<forall>c\<in>set (query s). is_space c) \<longrightarrow> handleSearch s = s)"
proof -
  have blank: "(\<forall>c\<in>set (query s). is_space c) \<Longrightarrow> handleSearch s = s"
    by (simp add: handleSearch_def trim_empty_iff)
  have ne: "(\<exists>c\<in>set (query s). \<not> is_space c) \<Longrightarrow> trim (query s) \<noteq> []"
    by (simp add: trim_empty_iff)
  have ok: "google s = Some k \<Longrightarrow> mapThrows k = None \<Longrightarrow> placesServiceThrows k = None
      \<Longrightarrow> textSearchThrows k = None \<Longrightarrow> thrown (google s) = None"
    by (simp add: thrown_def)
  have missing: "google s = None \<Longrightarrow>
      thrown (google s) = Some (js ''Google Maps SDK not loaded. Check index.html script.'')"
    by (simp add: thrown_def)
  have notice: "js ''Google Maps SDK not loaded. Check index.html script.'' \<noteq> []"
    by (simp add: js_def)
  have throws: "google s = Some k \<Longrightarrow>
      mapThrows k = Some m
        \<or> mapThrows k = None \<and> placesServiceThrows k = Some m
        \<or> mapThrows k = None \<and> placesServiceThrows k = None \<and> textSearchThrows k = Some m
      \<Longrightarrow> thrown (google s) = Some m"
    by (auto simp: thrown_def)
  show ?thesis
  proof (intro conjI impI)
    assume "(\<exists>c\<in>set (query s). \<not> is_space c) \<and> google s = Some k \<and> mapThrows k = None
       \<and> placesServiceThrows k = None \<and> textSearchThrows k = None"
    then show "handleSearch s =
        s\<lparr>loading := True, error := [], results := [], nextPage := None,
          pending := pending s @ [TextSearch (query s)]\<rparr>"
      using ne ok by (intro handleSearch_issues) blast+
  next
    assume a: "(\<exists>c\<in>set (query s). \<not> is_space c) \<and> google s = None"
    from a ne have t: "trim (query s) \<noteq> []"
      by blast
    from a missing
    have m: "thrown (google s) =
        Some (js ''Google Maps SDK not loaded. Check index.html script.'')"
      by simp
    from handleSearch_caught [OF t m] notice show "handleSearch s =
        s\<lparr>loading := False,
          error := js ''Google Maps SDK not loaded. Check index.html script.'',
          results := [], nextPage := None\<rparr>"
      by simp
  next
    assume "(\<exists>c\<in>set (query s). \<not> is_space c) \<and> google s = Some k
       \<and> (mapThrows k = Some m
           \<or> mapThrows k = None \<and> placesServiceThrows k = Some m
           \<or> mapThrows k = None \<and> placesServiceThrows k = None
              \<and> textSearchThrows k = Some m)"
    with ne throws have "trim (query s) \<noteq> []" "thrown (google s) = Some m"
      by blast+
    then show "handleSearch s =
        s\<lparr>loading := False, error := (if m = [] then js ''An error occurred'' else m),
          results := [], nextPage := None\<rparr>"
      by (rule handleSearch_caught)
  next
    assume "\<forall>c\<in>set (query s). is_space c"
    then show "handleSearch s = s" by (rule blank)
  qed
qed

text \<open>
  The theorem at four states that hold an earlier result and error: the query \<open>cafe\<close>
  with the SDK working, the same with \<open>window.google\<close> missing, the same with the
  places library missing (the second call throws), and a query of two blanks.
\<close>

theorem handleSearch_effect_witness:
  "handleSearch (loggedIn\<lparr>query := js ''cafe'', results := [cafeDetails],
       error := js ''old'', nextPage := Some morePages\<rparr>) =
     loggedIn\<lparr>query := js ''cafe'', results := [], error := [], nextPage := None,
       loading := True, pending := [TextSearch (js ''cafe'')]\<rparr>
   \<and> handleSearch (loggedIn\<lparr>query := js ''cafe'', results := [cafeDetails],
       error := js ''old'', nextPage := Some morePages, google := None\<rparr>) =
     loggedIn\<lparr>query := js ''cafe'', results := [], nextPage := None, google := None,
       error := js ''Google Maps SDK not loaded. Check index.html script.''\<rparr>
   \<and> handleSearch (loggedIn\<lparr>query := js ''cafe'', results := [cafeDetails],
       error := js ''old'', nextPage := Some morePages,
       google := Some \<lparr>mapThrows = None,
         placesServiceThrows = Some (js ''window.google.maps.places is undefined''),
         textSearchThrows = None\<rparr>\<rparr>) =
     loggedIn\<lparr>query := js ''cafe'', results := [], nextPage := None,
       google := Some \<lparr>mapThrows = None,
         placesServiceThrows = Some (js ''window.google.maps.places is undefined''),
         textSearchThrows = None\<rparr>,
       error := js ''window.google.maps.places is undefined''\<rparr>
   \<and> handleSearch (loggedIn\<lparr>query := js ''  '', results := [cafeDetails],
       error := js ''old'', nextPage := Some morePages\<rparr>) =
     loggedIn\<lparr>query := js ''  '', results := [cafeDetails],
       error := js ''old'', nextPage := Some morePages\<rparr>"
  using handleSearch_effect [of "loggedIn\<lparr>query := js ''cafe'', results := [cafeDetails],
       error := js ''old'', nextPage := Some morePages\<rparr>" sdkLoaded]
    handleSearch_effect [of "loggedIn\<lparr>query := js ''cafe'', results := [cafeDetails],
       error := js ''old'', nextPage := Some morePages, google := None\<rparr>"]
    handleSearch_effect [of "loggedIn\<lparr>query := js ''cafe'', results := [cafeDetails],
       error := js ''old'', nextPage := Some morePages,
       google := Some \<lparr>mapThrows = None,
         placesServiceThrows = Some (js ''window.google.maps.places is undefined''),
         textSearchThrows = None\<rparr>\<rparr>"
      "\<lparr>mapThrows = None,
         placesServiceThrows = Some (js ''window.google.maps.places is undefined''),
         textSearchThrows = None\<rparr>"
      "js ''window.google.maps.places is undefined''"]
    handleSearch_effect [of "loggedIn\<lparr>query := js ''  '', results := [cafeDetails],
       error := js ''old'', nextPage := Some morePages\<rparr>"]
  by (simp add: is_space_def js_def loggedIn_def startApp_def restoreSession_def
      checkSession_def initialWorld_def sdkLoaded_def)

text \<open>
  C3 as stated fails when \<open>window.google\<close> is missing: after the login the page
  offers the search, the query \<open>cafe\<close> is not empty after trimming, and submitting it
  issues no request; the SDK notice is shown instead and the loading flag is false.
\<close>

theorem handleSearch_no_sdk_counterexample:
  "trim (js ''cafe'') \<noteq> []
   \<and> run (startApp None None 0)
       [TypeKey SECRET_KEY, SubmitLogin, TypeQuery (js ''cafe''), SubmitSearch] =
     Some (loggedIn\<lparr>google := None, query := js ''cafe'', pending := [], loading := False,
       error := js ''Google Maps SDK not loaded. Check index.html script.''\<rparr>)"
  by (simp add: run_defs)

lemma step_results_bound:
  assumes "step s e = Some s'"
  shows "length (results s') \<le> length (results s) + (if isDetailsResponse e then 1 else 0)"
  using assms
  by (cases e)
    (auto simp: handleLogin_def handleSearch_def placesCallback_def detailsCallback_def
      loadMore_def callNextPage_def fireTimer_def Let_def
      split: if_splits request.splits option.splits)

lemma run_results_bound:
  "run s es = Some s' \<Longrightarrow>
   length (results s') \<le> length (results s) + length (filter isDetailsResponse es)"
proof (induction es arbitrary: s)
  case Nil
  then show ?case by simp
next
  case (Cons e es)
  from Cons.prems obtain s1 where s1: "step s e = Some s1" "run s1 es = Some s'"
    by (auto split: option.splits)
  from step_results_bound [OF s1(1)] Cons.IH [OF s1(2)] show ?case
    by (simp split: if_splits)
qed

lemma step_page_failure:
  assumes "status \<noteq> PlacesServiceStatus_OK"
    and "step s (PageResponse i res status pg) = Some s'"
  shows "s' = s\<lparr>pending := removeAt i (pending s),
              error := js ''Google Places request failed: '' @ status, loading := False\<rparr>"
proof -
  from assms(2)
  have "s' = placesCallback res status pg (s\<lparr>pending := removeAt i (pending s)\<rparr>)"
    by (auto split: if_splits request.splits)
  with assms(1) show ?thesis
    by (simp add: placesCallback_failure)
qed

text \<open>
  C5, as the code has it. A search is submitted with a query that is not blank and
  nothing thrown, so that its request is with the provider; the execution goes on in
  any way, and then a page callback arrives with a status \<open>S\<close> other than OK. Then the
  error message is \<open>Google Places request failed: \<close> followed by \<open>S\<close>, the loading
  flag is false, and nothing is retried: apart from the answered request being gone,
  the outstanding requests, the timers and the result list are as the callback found
  them. The result list has at most one record per detail callback delivered since
  the search was submitted, so it is empty when none was delivered; in particular it
  is empty when the failure is the next thing to happen after the search.
\<close>

theorem search_failure_surfaced:
  assumes "trim (query s) \<noteq> []" and "thrown (google s) = None"
    and "status \<noteq> PlacesServiceStatus_OK"
    and "run (handleSearch s) es = Some s1"
    and "step s1 (PageResponse i res status pg) = Some s2"
  shows "pending (handleSearch s) = pending s @ [TextSearch (query s)]
    \<and> s2 = s1\<lparr>pending := removeAt i (pending s1),
              error := js ''Google Places request failed: '' @ status, loading := False\<rparr>
    \<and> length (results s2) \<le> length (filter isDetailsResponse es)
    \<and> ((\<forall>e\<in>set es. \<not> isDetailsResponse e) \<longrightarrow> results s2 = [])
    \<and> step (handleSearch s) (PageResponse (length (pending s)) res status pg) =
        Some (s\<lparr>loading := False, error := js ''Google Places request failed: '' @ status,
                results := [], nextPage := None\<rparr>)"
proof -
  note hs = handleSearch_issues [OF assms(1,2)]
  have s2: "s2 = s1\<lparr>pending := removeAt i (pending s1),
              error := js ''Google Places request failed: '' @ status, loading := False\<rparr>"
    using assms(3,5) by (rule step_page_failure)
  have "results (handleSearch s) = []"
    by (simp add: hs)
  with run_results_bound [OF assms(4)]
  have "length (results s1) \<le> length (filter isDetailsResponse es)"
    by simp
  with s2 have bound: "length (results s2) \<le> length (filter isDetailsResponse es)"
    by simp
  have none: "(\<forall>e\<in>set es. \<not> isDetailsResponse e) \<longrightarrow> results s2 = []"
  proof
    assume "\<forall>e\<in>set es. \<not> isDetailsResponse e"
    then have "filter isDetailsResponse es = []"
      by (simp add: filter_empty_conv)
    with bound show "results s2 = []" by simp
  qed
  have next_event: "step (handleSearch s) (PageResponse (length (pending s)) res status pg) =
        Some (s\<lparr>loading := False, error := js ''Google Places request failed: '' @ status,
                results := [], nextPage := None\<rparr>)"
    unfolding hs using assms(3)
    by (simp add: placesCallback_failure removeAt_append_last)
  from s2 bound none next_event show ?thesis
    by (simp add: hs)
qed

text \<open>
  The theorem at the query \<open>cafe\<close>, 300 ms passing, and the status \<open>REQUEST_DENIED\<close>.
\<close>

theorem search_failure_surfaced_witness:
  "trim (query (loggedIn\<lparr>query := js ''cafe''\<rparr>)) \<noteq> []
   \<and> thrown (google (loggedIn\<lparr>query := js ''cafe''\<rparr>)) = None
   \<and> js ''REQUEST_DENIED'' \<noteq> PlacesServiceStatus_OK
   \<and> run (handleSearch (loggedIn\<lparr>query := js ''cafe''\<rparr>)) [Tick 300] =
       Some (loggedIn\<lparr>query := js ''cafe'', loading := True, now := 300,
         pending := [TextSearch (js ''cafe'')]\<rparr>)
   \<and> step (loggedIn\<lparr>query := js ''cafe'', loading := True, now := 300,
         pending := [TextSearch (js ''cafe'')]\<rparr>)
        (PageResponse 0 [] (js ''REQUEST_DENIED'') None) =
       Some (loggedIn\<lparr>query := js ''cafe'', now := 300,
         error := js ''Google Places request failed: REQUEST_DENIED''\<rparr>)
   \<and> results (loggedIn\<lparr>query := js ''cafe'', now := 300,
         error := js ''Google Places request failed: REQUEST_DENIED''\<rparr>) = []"
proof -
  let ?s = "loggedIn\<lparr>query := js ''cafe''\<rparr>"
  let ?s1 = "loggedIn\<lparr>query := js ''cafe'', loading := True, now := 300,
         pending := [TextSearch (js ''cafe'')]\<rparr>"
  let ?s2 = "loggedIn\<lparr>query := js ''cafe'', now := 300,
         error := js ''Google Places request failed: REQUEST_DENIED''\<rparr>"
  have h1: "trim (query ?s) \<noteq> []"
    by (simp add: trim_def is_space_def js_def)
  have h2: "thrown (google ?s) = None"
    by (simp add: run_defs)
  have h3: "js ''REQUEST_DENIED'' \<noteq> PlacesServiceStatus_OK"
    by (simp add: PlacesServiceStatus_OK_def js_def)
  have h4: "run (handleSearch ?s) [Tick 300] = Some ?s1"
    by (simp add: run_defs)
  have h5: "step ?s1 (PageResponse 0 [] (js ''REQUEST_DENIED'') None) = Some ?s2"
    by (simp add: run_defs)
  from search_failure_surfaced [OF h1 h2 h3 h4 h5] h1 h2 h3 h4 h5 show ?thesis
    by simp
qed

text \<open>
  C5 as stated fails when a detail callback of an earlier search arrives between the
  submission and the failure: the search for \<open>bank\<close> is answered with
  \<open>REQUEST_DENIED\<close>, and the result list is not empty but holds the record of the
  earlier search for \<open>cafe\<close>.
\<close>

theorem search_failure_stale_counterexample:
  "run (startApp (Some sdkLoaded) None 0)
     [TypeKey SECRET_KEY, SubmitLogin, TypeQuery (js ''cafe''), SubmitSearch,
      PageResponse 0 [cafeSummary] PlacesServiceStatus_OK None,
      Back, TypeQuery (js ''bank''), SubmitSearch,
      DetailsResponse 0 cafeDetails PlacesServiceStatus_OK,
      PageResponse 0 [] (js ''REQUEST_DENIED'') None] =
     Some (loggedIn\<lparr>query := js ''bank'', results := [cafeDetails], loading := False,
       pending := [], error := js ''Google Places request failed: REQUEST_DENIED''\<rparr>)
   \<and> [cafeDetails] \<noteq> []"
  by (simp add: run_defs)

text \<open>
  C4. A page delivered with status OK puts one detail lookup per summary, in page
  order, among the provider's outstanding requests. When any outstanding detail lookup
  is answered with a status other than OK, the summary it was issued for is appended
  to the result list and nothing else changes but that this lookup is no longer
  outstanding: the error message and the alerts are as before, and every other
  outstanding request is still outstanding.
\<close>

theorem details_failure_degrades:
  "pending (placesCallback res PlacesServiceStatus_OK pg s) = pending s @ map GetDetails res
   \<and> (i < length (pending s) \<and> pending s ! i = GetDetails p
       \<and> detailsStatus \<noteq> PlacesServiceStatus_OK \<longrightarrow>
      step s (DetailsResponse i details detailsStatus) =
        Some (s\<lparr>pending := removeAt i (pending s), results := results s @ [p]\<rparr>)
      \<and> (\<forall>s'. step s (DetailsResponse i details detailsStatus) = Some s' \<longrightarrow>
            last (results s') = p \<and> length (results s') = Suc (length (results s))
            \<and> error s' = error s \<and> alerts s' = alerts s
            \<and> (\<forall>j<length (pending s). j \<noteq> i \<longrightarrow> pending s ! j \<in> set (pending s'))))"
  by (auto simp: placesCallback_def issueDetails_append detailsCallback_def nth_in_removeAt)

text \<open>
  The theorem at a page of two summaries, where the first detail lookup is answered
  with \<open>NOT_FOUND\<close>.
\<close>

theorem details_failure_degrades_witness:
  "run loggedIn
     [TypeQuery (js ''cafe''), SubmitSearch,
      PageResponse 0 [cafeSummary, dhabaSummary] PlacesServiceStatus_OK None] =
     Some (loggedIn\<lparr>query := js ''cafe'', activeTab := ResultsTab,
       pending := [GetDetails cafeSummary, GetDetails dhabaSummary]\<rparr>)
   \<and> step (loggedIn\<lparr>query := js ''cafe'', activeTab := ResultsTab,
       pending := [GetDetails cafeSummary, GetDetails dhabaSummary]\<rparr>)
      (DetailsResponse 0 cafeDetails (js ''NOT_FOUND'')) =
     Some (loggedIn\<lparr>query := js ''cafe'', activeTab := ResultsTab,
       pending := [GetDetails dhabaSummary], results := [cafeSummary]\<rparr>)"
proof -
  let ?s = "loggedIn\<lparr>query := js ''cafe'', activeTab := ResultsTab,
       pending := [GetDetails cafeSummary, GetDetails dhabaSummary]\<rparr>"
  have h: "0 < length (pending ?s) \<and> pending ?s ! 0 = GetDetails cafeSummary
      \<and> js ''NOT_FOUND'' \<noteq> PlacesServiceStatus_OK"
    by (simp add: PlacesServiceStatus_OK_def js_def)
  have r: "run loggedIn
     [TypeQuery (js ''cafe''), SubmitSearch,
      PageResponse 0 [cafeSummary, dhabaSummary] PlacesServiceStatus_OK None] = Some ?s"
    by (simp add: run_defs)
  from details_failure_degrades [of "[]" None ?s 0 cafeSummary "js ''NOT_FOUND''" cafeDetails]
    h r show ?thesis
    by (simp add: run_defs)
qed

text \<open>
  C8. With no continuation stored, \<open>loadMore\<close> changes nothing: the whole state,
  the provider's outstanding requests and the timers included, is as before.
\<close>

theorem loadMore_without_handle:
  "nextPage s = None \<Longrightarrow> loadMore s = s"
  by (simp add: loadMore_def)

text \<open>The theorem at a state that shows one result and has no further page.\<close>

theorem loadMore_without_handle_witness:
  "nextPage (loggedIn\<lparr>activeTab := ResultsTab, results := [cafeDetails]\<rparr>) = None
   \<and> loadMore (loggedIn\<lparr>activeTab := ResultsTab, results := [cafeDetails]\<rparr>) =
       loggedIn\<lparr>activeTab := ResultsTab, results := [cafeDetails]\<rparr>"
proof -
  have h: "nextPage (loggedIn\<lparr>activeTab := ResultsTab, results := [cafeDetails]\<rparr>) = None"
    by (simp add: run_defs)
  from h loadMore_without_handle [OF h] show ?thesis by simp
qed

text \<open>
  C10. When the callback of a text search or of a \<open>nextPage()\<close> call arrives with a
  status other than OK, the result list and the stored continuation are as before;
  the error message becomes the failure message for that status and the loading flag
  becomes false. Nothing else of the state changes, except that the answered request
  is no longer outstanding.
\<close>

theorem page_failure_frame:
  assumes "status \<noteq> PlacesServiceStatus_OK"
    and "step s (PageResponse i res status pg) = Some s'"
  shows "results s' = results s \<and> nextPage s' = nextPage s
    \<and> error s' = js ''Google Places request failed: '' @ status \<and> loading s' = False
    \<and> s' = s\<lparr>pending := removeAt i (pending s),
              error := js ''Google Places request failed: '' @ status, loading := False\<rparr>"
proof -
  from assms(2)
  have "s' = placesCallback res status pg (s\<lparr>pending := removeAt i (pending s)\<rparr>)"
    by (auto split: if_splits request.splits)
  with assms(1) show ?thesis
    by (simp add: placesCallback_failure)
qed

text \<open>
  The theorem at a run where Load More was clicked with one result shown, the timer
  fired after 2000 ms, and the \<open>nextPage()\<close> call is answered with \<open>UNKNOWN_ERROR\<close>.
\<close>

theorem page_failure_frame_witness:
  "run loggedIn
     [TypeQuery (js ''cafe''), SubmitSearch,
      PageResponse 0 [cafeSummary] PlacesServiceStatus_OK (Some morePages),
      DetailsResponse 0 cafeDetails PlacesServiceStatus_OK,
      ClickLoadMore, Tick 2000, TimerFires 0] =
     Some (loggedIn\<lparr>query := js ''cafe'', activeTab := ResultsTab, results := [cafeDetails],
       nextPage := Some morePages, loading := True, now := 2000, nextTimerId := 1,
       pending := [NextPageCall morePages], pageCalls := [(2000, 0)]\<rparr>)
   \<and> step (loggedIn\<lparr>query := js ''cafe'', activeTab := ResultsTab, results := [cafeDetails],
       nextPage := Some morePages, loading := True, now := 2000, nextTimerId := 1,
       pending := [NextPageCall morePages], pageCalls := [(2000, 0)]\<rparr>)
      (PageResponse 0 [] (js ''UNKNOWN_ERROR'') None) =
     Some (loggedIn\<lparr>query := js ''cafe'', activeTab := ResultsTab, results := [cafeDetails],
       nextPage := Some morePages, loading := False, now := 2000, nextTimerId := 1,
       pending := [], pageCalls := [(2000, 0)],
       error := js ''Google Places request failed: UNKNOWN_ERROR''\<rparr>)"
proof -
  let ?s = "loggedIn\<lparr>query := js ''cafe'', activeTab := ResultsTab, results := [cafeDetails],
       nextPage := Some morePages, loading := True, now := 2000, nextTimerId := 1,
       pending := [NextPageCall morePages], pageCalls := [(2000, 0)]\<rparr>"
  have h1: "js ''UNKNOWN_ERROR'' \<noteq> PlacesServiceStatus_OK"
    by (simp add: PlacesServiceStatus_OK_def js_def)
  have h2: "step ?s (PageResponse 0 [] (js ''UNKNOWN_ERROR'') None) =
      Some (placesCallback [] (js ''UNKNOWN_ERROR'') None (?s\<lparr>pending := removeAt 0 (pending ?s)\<rparr>))"
    by simp
  have r: "run loggedIn
     [TypeQuery (js ''cafe''), SubmitSearch,
      PageResponse 0 [cafeSummary] PlacesServiceStatus_OK (Some morePages),
      DetailsResponse 0 cafeDetails PlacesServiceStatus_OK,
      ClickLoadMore, Tick 2000, TimerFires 0] = Some ?s"
    by (simp add: run_defs morePages_def)
  from page_failure_frame [OF h1 h2] h2 r show ?thesis
    by (simp add: run_defs)
qed


text \<open>
  C9. An execution of the race: a search for \<open>cafe\<close> is answered with one summary,
  whose detail lookup stays outstanding; the user goes back and submits a search for
  \<open>bank\<close>, which empties the result list; then the detail callback of the first
  search arrives, and its record is the one entry of the result list of the second
  search, whose own request is not answered yet. A detail callback carries its summary
  and nothing that ties it to a search: in every state it appends one record.
\<close>

theorem stale_details_callback_appends:
  "run (startApp (Some sdkLoaded) None 0)
     [TypeKey SECRET_KEY, SubmitLogin, TypeQuery (js ''cafe''), SubmitSearch,
      PageResponse 0 [cafeSummary] PlacesServiceStatus_OK None,
      Back, TypeQuery (js ''bank''), SubmitSearch] =
     Some (loggedIn\<lparr>query := js ''bank'', results := [], loading := True,
       pending := [GetDetails cafeSummary, TextSearch (js ''bank'')]\<rparr>)
   \<and> run (startApp (Some sdkLoaded) None 0)
     [TypeKey SECRET_KEY, SubmitLogin, TypeQuery (js ''cafe''), SubmitSearch,
      PageResponse 0 [cafeSummary] PlacesServiceStatus_OK None,
      Back, TypeQuery (js ''bank''), SubmitSearch,
      DetailsResponse 0 cafeDetails PlacesServiceStatus_OK] =
     Some (loggedIn\<lparr>query := js ''bank'', results := [cafeDetails], loading := True,
       pending := [TextSearch (js ''bank'')]\<rparr>)
   \<and> results (detailsCallback p details detailsStatus s) =
       results s @ [if detailsStatus = PlacesServiceStatus_OK then details else p]"
  by (simp add: run_defs)

section \<open>The delay before the next page\<close>

lemma step_timers_cases:
  assumes "step s e = Some s'"
  shows "(timers s' = timers s \<and> pageCalls s' = pageCalls s \<and> nextTimerId s' = nextTimerId s)
       \<or> (\<exists>p. e = ClickLoadMore \<and> nextPage s = Some p \<and> s' = loadMore s)
       \<or> (\<exists>i. e = TimerFires i \<and> i < length (timers s) \<and> due (timers s ! i) \<le> now s
              \<and> s' = fireTimer i s)"
  using assms
  by (cases e)
    (auto simp: handleLogin_def handleSearch_def placesCallback_def detailsCallback_def Let_def
      split: if_splits request.splits option.splits)

lemma loadMore_fields:
  assumes "nextPage s = Some p"
  shows "timers (loadMore s) =
      timers s @ [\<lparr>timerId = nextTimerId s, due = now s + 2000, target = p\<rparr>]"
    and "nextTimerId (loadMore s) = Suc (nextTimerId s)"
    and "pageCalls (loadMore s) = pageCalls s"
    and "pending (loadMore s) = pending s"
    and "loading (loadMore s) = True"
  using assms by (simp_all add: loadMore_def callNextPage_def)

lemma fireTimer_fields:
  "timers (fireTimer i s) = removeAt i (timers s)"
  "nextTimerId (fireTimer i s) = nextTimerId s"
  "pageCalls (fireTimer i s) = pageCalls s @ [(now s, timerId (timers s ! i))]"
  by (simp_all add: fireTimer_def Let_def)

lemma handlesFresh_step:
  assumes "handlesFresh s" "step s e = Some s'"
  shows "handlesFresh s'"
proof -
  from step_timers_cases [OF assms(2)] consider
    (same) "timers s' = timers s" "pageCalls s' = pageCalls s" "nextTimerId s' = nextTimerId s"
    | (more) p where "nextPage s = Some p" "s' = loadMore s"
    | (fire) i where "i < length (timers s)" "s' = fireTimer i s"
    by blast
  then show ?thesis
  proof cases
    case same
    with assms(1) show ?thesis by (simp add: handlesFresh_def)
  next
    case more
    with assms(1) show ?thesis
      by (auto simp: handlesFresh_def loadMore_fields less_Suc_eq)
  next
    case fire
    from fire(1) have "timers s ! i \<in> set (timers s)" by simp
    with assms(1) fire show ?thesis
      by (auto simp: handlesFresh_def fireTimer_fields dest: in_set_removeAt)
  qed
qed

lemma handlesFresh_run:
  "handlesFresh s \<Longrightarrow> run s es = Some s' \<Longrightarrow> handlesFresh s'"
proof (induction es arbitrary: s)
  case Nil
  then show ?case by simp
next
  case (Cons e es)
  then show ?case
    by (auto split: option.splits dest: handlesFresh_step)
qed

lemma handlesFresh_start: "handlesFresh (startApp g stored t)"
  by (simp add: handlesFresh_def startApp_def restoreSession_def checkSession_def
      initialWorld_def Let_def split: option.splits)

lemma notBefore_step:
  assumes "notBefore h d s" "h < nextTimerId s" "step s e = Some s'"
  shows "notBefore h d s' \<and> h < nextTimerId s'"
proof -
  from step_timers_cases [OF assms(3)] consider
    (same) "timers s' = timers s" "pageCalls s' = pageCalls s" "nextTimerId s' = nextTimerId s"
    | (more) p where "nextPage s = Some p" "s' = loadMore s"
    | (fire) i where "i < length (timers s)" "due (timers s ! i) \<le> now s" "s' = fireTimer i s"
    by blast
  then show ?thesis
  proof cases
    case same
    with assms(1,2) show ?thesis by (simp add: notBefore_def)
  next
    case more
    with assms(1,2) show ?thesis
      by (auto simp: notBefore_def loadMore_fields)
  next
    case fire
    from fire(1) have "timers s ! i \<in> set (timers s)" by simp
    with assms(1,2) fire show ?thesis
      by (fastforce simp: notBefore_def fireTimer_fields dest: in_set_removeAt)
  qed
qed

lemma notBefore_run:
  "notBefore h d s \<Longrightarrow> h < nextTimerId s \<Longrightarrow> run s es = Some s' \<Longrightarrow> notBefore h d s'"
proof (induction es arbitrary: s)
  case Nil
  then show ?case by simp
next
  case (Cons e es)
  from Cons.prems(3) obtain s1 where s1: "step s e = Some s1" "run s1 es = Some s'"
    by (auto split: option.splits)
  from notBefore_step [OF Cons.prems(1,2) s1(1)] Cons.IH s1(2) show ?case by blast
qed

lemma notBefore_loadMore:
  assumes "handlesFresh s" "nextPage s = Some p"
  shows "notBefore (nextTimerId s) (now s + 2000) (loadMore s)"
  using assms by (auto simp: notBefore_def handlesFresh_def loadMore_fields)

text \<open>
  C2. Take any state \<open>s\<close> the application can reach that stores a continuation, and
  call \<open>loadMore\<close> there. At once the loading flag is true, no call into the provider
  has been made, and one timer has been added, due 2000 ms after the instant of the
  call, for the continuation's \<open>nextPage()\<close>. However the execution goes on, every
  \<open>nextPage()\<close> call made from that timer happens at an instant no sooner than 2000 ms
  after the invocation. A timer fires only once the clock has reached its due instant,
  which is what \<open>setTimeout\<close> guarantees.
\<close>

theorem loadMore_delay:
  assumes "run (startApp g stored t0) es0 = Some s"
    and "nextPage s = Some p"
    and "run (loadMore s) es = Some s'"
  shows "loading (loadMore s) = True
    \<and> pending (loadMore s) = pending s
    \<and> pageCalls (loadMore s) = pageCalls s
    \<and> timers (loadMore s) =
        timers s @ [\<lparr>timerId = nextTimerId s, due = now s + 2000, target = p\<rparr>]
    \<and> (\<forall>c\<in>set (pageCalls s'). snd c = nextTimerId s \<longrightarrow> now s + 2000 \<le> fst c)"
proof -
  from handlesFresh_run [OF handlesFresh_start assms(1)] have fresh: "handlesFresh s" .
  have "notBefore (nextTimerId s) (now s + 2000) s'"
    by (rule notBefore_run [OF notBefore_loadMore [OF fresh assms(2)] _ assms(3)])
      (simp add: loadMore_fields [OF assms(2)])
  then show ?thesis
    by (simp add: loadMore_fields [OF assms(2)] notBefore_def)
qed

text \<open>
  The theorem at a run that reaches a state with one result and a further page: after
  \<open>loadMore\<close> and 2000 ms the timer fires and the call is logged at instant 2000; after
  1999 ms the timer cannot fire.
\<close>

theorem loadMore_delay_witness:
  "run (startApp (Some sdkLoaded) None 0)
     [TypeKey SECRET_KEY, SubmitLogin, TypeQuery (js ''cafe''), SubmitSearch,
      PageResponse 0 [cafeSummary] PlacesServiceStatus_OK (Some morePages),
      DetailsResponse 0 cafeDetails PlacesServiceStatus_OK] =
     Some (loggedIn\<lparr>activeTab := ResultsTab, query := js ''cafe'', results := [cafeDetails],
       nextPage := Some morePages\<rparr>)
   \<and> run (loadMore (loggedIn\<lparr>activeTab := ResultsTab, query := js ''cafe'',
       results := [cafeDetails], nextPage := Some morePages\<rparr>)) [Tick 2000, TimerFires 0] =
     Some (loggedIn\<lparr>activeTab := ResultsTab, query := js ''cafe'', results := [cafeDetails],
       nextPage := Some morePages, loading := True, now := 2000, nextTimerId := 1,
       pending := [NextPageCall morePages], pageCalls := [(2000, 0)]\<rparr>)
   \<and> run (loadMore (loggedIn\<lparr>activeTab := ResultsTab, query := js ''cafe'',
       results := [cafeDetails], nextPage := Some morePages\<rparr>)) [Tick 1999, TimerFires 0] =
     None"
proof -
  let ?s = "loggedIn\<lparr>activeTab := ResultsTab, query := js ''cafe'', results := [cafeDetails],
       nextPage := Some morePages\<rparr>"
  let ?s' = "loggedIn\<lparr>activeTab := ResultsTab, query := js ''cafe'', results := [cafeDetails],
       nextPage := Some morePages, loading := True, now := 2000, nextTimerId := 1,
       pending := [NextPageCall morePages], pageCalls := [(2000, 0)]\<rparr>"
  have h1: "run (startApp (Some sdkLoaded) None 0)
     [TypeKey SECRET_KEY, SubmitLogin, TypeQuery (js ''cafe''), SubmitSearch,
      PageResponse 0 [cafeSummary] PlacesServiceStatus_OK (Some morePages),
      DetailsResponse 0 cafeDetails PlacesServiceStatus_OK] = Some ?s"
    by (simp add: run_defs morePages_def)
  have h2: "nextPage ?s = Some morePages" by simp
  have h3: "run (loadMore ?s) [Tick 2000, TimerFires 0] = Some ?s'"
    by (simp add: run_defs)
  have h4: "run (loadMore ?s) [Tick 1999, TimerFires 0] = None"
    by (simp add: run_defs)
  from loadMore_delay [OF h1 h2 h3] h1 h3 h4 show ?thesis
    by simp
qed


end
